theory Spec2Isabelle
  imports Complex_Main
begin

section \<open>Python values used by the model builder\<close>

text \<open>
  The module \<^verbatim>\<open>segmed/models/multiresunet.py\<close> uses Python integers (unbounded,
  modelled as \<open>int\<close>), Python floats (binary64) and optional arguments (\<open>option\<close>).
  An exception is a value of the type \<open>error\<close>: \<open>KerasError\<close> stands for every exception
  raised inside a call into the framework, the other three are raised by Python's own
  arithmetic inside the functions of this module.
\<close>

datatype error = KerasError | TypeError | ValueError | OverflowError

subsection \<open>Floats: binary64 with round-to-nearest-even\<close>

text \<open>
  A float is a finite rational, an infinity (\<open>True\<close> is positive) or NaN. The sign of a
  zero is not kept: the module observes floats through \<^verbatim>\<open>int()\<close> only, and
  \<^verbatim>\<open>int(-0.0) == 0\<close>.
\<close>

datatype pyfloat = Finite rat | Infinity bool | NaN

definition pow2 :: "int \<Rightarrow> rat" where
  "pow2 e = (if 0 \<le> e then 2 ^ nat e else 1 / 2 ^ nat (- e))"

fun bit_length :: "nat \<Rightarrow> nat" where
  "bit_length n = (if n = 0 then 0 else Suc (bit_length (n div 2)))"

definition ilog2 :: "rat \<Rightarrow> int" where
  \<comment> \<open>\<open>\<lfloor>log\<^sub>2 a\<rfloor>\<close> for \<open>0 < a\<close>\<close>
  "ilog2 a = (if 1 \<le> a then int (bit_length (nat \<lfloor>a\<rfloor>)) - 1
              else - int (bit_length (nat (\<lceil>1 / a\<rceil> - 1))))"

definition round_half_even :: "rat \<Rightarrow> int" where
  "round_half_even q =
     (let f = \<lfloor>q\<rfloor>; d = q - of_int f
      in if d < 1 / 2 then f else if 1 / 2 < d then f + 1
         else if even f then f else f + 1)"

definition round64 :: "rat \<Rightarrow> pyfloat" where
  \<comment> \<open>the binary64 value nearest to a rational: 53 significant bits, exponents from
      \<open>-1022\<close> (subnormals below) to \<open>1023\<close> (infinity above)\<close>
  "round64 x =
     (if x = 0 then Finite 0
      else let a = \<bar>x\<bar>;
               e = max (ilog2 a) (- 1022);
               ulp = pow2 (e - 52);
               r = of_int (round_half_even (a / ulp)) * ulp
           in if pow2 1024 \<le> r then Infinity (0 < x)
              else Finite (if 0 < x then r else - r))"

fun fmul :: "pyfloat \<Rightarrow> pyfloat \<Rightarrow> pyfloat" where
  "fmul NaN _ = NaN"
| "fmul _ NaN = NaN"
| "fmul (Finite a) (Finite b) = round64 (a * b)"
| "fmul (Infinity s) (Finite b) = (if b = 0 then NaN else Infinity (s = (0 < b)))"
| "fmul (Finite a) (Infinity s) = (if a = 0 then NaN else Infinity (s = (0 < a)))"
| "fmul (Infinity s) (Infinity t) = Infinity (s = t)"

definition float_of_int :: "int \<Rightarrow> error + pyfloat" where
  \<comment> \<open>the conversion of the integer operand of a mixed product\<close>
  "float_of_int n =
     (case round64 (of_int n) of Finite r \<Rightarrow> Inr (Finite r) | _ \<Rightarrow> Inl OverflowError)"

definition mul_int_float :: "int \<Rightarrow> pyfloat option \<Rightarrow> error + pyfloat" where
  \<comment> \<open>\<^verbatim>\<open>n * x\<close> for an int \<open>n\<close> and \<open>x\<close> a float or None\<close>
  "mul_int_float n x =
     (case x of None \<Rightarrow> Inl TypeError
      | Some y \<Rightarrow> (case float_of_int n of Inl e \<Rightarrow> Inl e | Inr m \<Rightarrow> Inr (fmul m y)))"

definition py_int :: "pyfloat \<Rightarrow> error + int" where
  \<comment> \<open>\<^verbatim>\<open>int(x)\<close>: truncation towards zero\<close>
  "py_int x =
     (case x of Finite r \<Rightarrow> Inr (if 0 \<le> r then \<lfloor>r\<rfloor> else \<lceil>r\<rceil>)
      | Infinity _ \<Rightarrow> Inl OverflowError
      | NaN \<Rightarrow> Inl ValueError)"

definition py_range :: "int \<Rightarrow> int list" where
  "py_range n = [0..n - 1]"

text \<open>The float literals of the module.\<close>

definition lit_1_67 :: pyfloat where "lit_1_67 = round64 (167 / 100)"
definition lit_0_167 :: pyfloat where "lit_0_167 = round64 (167 / 1000)"
definition lit_0_333 :: pyfloat where "lit_0_333 = round64 (333 / 1000)"
definition lit_0_5 :: pyfloat where "lit_0_5 = round64 (1 / 2)"


section \<open>The framework: symbolic tensors and layers\<close>

text \<open>
  The layer library \<^verbatim>\<open>tensorflow.keras\<close> is not part of the repository. It is
  modelled here by what graph construction observes: every call of a layer creates one
  new layer in the framework's state, records the tensors it was applied to, infers the
  shape of its output and raises on invalid parameters or incompatible shapes. Shapes
  are channels-last image shapes \<open>(height, width, channels)\<close> without the batch axis;
  sizes are natural numbers, filter counts are Python integers that the framework
  validates.

  A symbolic tensor knows the layer that produced it (its position in the framework's
  list of layers) and its shape.
\<close>

type_synonym shape = "nat \<times> nat \<times> nat"

record tensor =
  tid :: nat
  tshape :: shape

datatype layer_op =
    InputLayer
  | Conv2DLayer int "nat \<times> nat" "nat \<times> nat" string bool
      \<comment> \<open>filters, kernel size, strides, padding, use_bias\<close>
  | BatchNormalizationLayer bool \<comment> \<open>scale\<close>
  | ActivationLayer string
  | ConcatenateLayer
  | AddLayer
  | MaxPooling2DLayer "nat \<times> nat" \<comment> \<open>pool size\<close>
  | Conv2DTransposeLayer int "nat \<times> nat" "nat \<times> nat" string
      \<comment> \<open>filters, kernel size, strides, padding\<close>

record layer =
  config :: layer_op
  inbound :: "tensor list"
  output_shape :: shape

type_synonym graph = "layer list"

text \<open>
  A graph-building computation takes the framework's state (the layers created so far)
  and either raises or returns a value and the new state.
\<close>

type_synonym 'a build = "graph \<Rightarrow> error + ('a \<times> graph)"

definition ret :: "'a \<Rightarrow> 'a build" where
  "ret x g = Inr (x, g)"

definition raise :: "error \<Rightarrow> 'a build" where
  "raise e g = Inl e"

definition and_then :: "'a build \<Rightarrow> ('a \<Rightarrow> 'b build) \<Rightarrow> 'b build" where
  "and_then m f g = (case m g of Inl e \<Rightarrow> Inl e | Inr (x, g') \<Rightarrow> f x g')"

definition py :: "error + 'a \<Rightarrow> 'a build" where
  \<comment> \<open>a Python expression evaluated inside the module: it raises or has a value\<close>
  "py r = (case r of Inl e \<Rightarrow> raise e | Inr x \<Rightarrow> ret x)"

text \<open>
  A layer can only be called on tensors of the graph, that is on the output of a layer
  that exists; any other value is rejected by the framework.
\<close>

definition is_tensor_of :: "graph \<Rightarrow> tensor \<Rightarrow> bool" where
  "is_tensor_of g x \<longleftrightarrow> tid x < length g \<and> output_shape (g ! tid x) = tshape x"

definition new_layer :: "layer_op \<Rightarrow> tensor list \<Rightarrow> shape \<Rightarrow> tensor build" where
  "new_layer cfg ins s g =
     (if list_all (is_tensor_of g) ins
      then Inr (\<lparr>tid = length g, tshape = s\<rparr>,
                g @ [\<lparr>config = cfg, inbound = ins, output_shape = s\<rparr>])
      else Inl KerasError)"

subsection \<open>Shape inference of the layers\<close>

definition conv_output_length :: "nat \<Rightarrow> nat \<Rightarrow> string \<Rightarrow> nat \<Rightarrow> nat option" where
  \<comment> \<open>input length, window, padding, stride\<close>
  "conv_output_length n k padding s =
     (if padding = ''same'' then Some ((n + s - 1) div s)
      else if padding = ''valid'' then
        (if n + s < k then None else Some ((n + s - k) div s))
      else None)"

definition deconv_output_length :: "nat \<Rightarrow> nat \<Rightarrow> string \<Rightarrow> nat \<Rightarrow> nat option" where
  "deconv_output_length n k padding s =
     (if padding = ''same'' then Some (n * s)
      else if padding = ''valid'' then Some (n * s + (k - s))
      else None)"

definition known_activation :: "string \<Rightarrow> bool" where
  "known_activation a \<longleftrightarrow>
     a \<in> set [''relu'', ''sigmoid'', ''softmax'', ''tanh'', ''linear'', ''elu'', ''selu'',
              ''softplus'', ''softsign'', ''hard_sigmoid'', ''exponential'']"

definition broadcast_dim :: "nat \<Rightarrow> nat \<Rightarrow> nat option" where
  "broadcast_dim i j =
     (if i = 1 then Some j else if j = 1 then Some i
      else if i = j then Some i else None)"

definition broadcast_shape :: "shape \<Rightarrow> shape \<Rightarrow> shape option" where
  "broadcast_shape s t =
     (case (s, t) of ((h, w, c), (h', w', c')) \<Rightarrow>
        (case (broadcast_dim h h', broadcast_dim w w', broadcast_dim c c') of
           (Some a, Some b, Some d) \<Rightarrow> Some (a, b, d)
         | _ \<Rightarrow> None))"

fun broadcast_all :: "shape \<Rightarrow> shape list \<Rightarrow> shape option" where
  "broadcast_all s [] = Some s"
| "broadcast_all s (t # ts) =
     (case broadcast_shape s t of None \<Rightarrow> None | Some u \<Rightarrow> broadcast_all u ts)"

definition spatial :: "shape \<Rightarrow> nat \<times> nat" where
  "spatial s = (case s of (h, w, c) \<Rightarrow> (h, w))"

definition channels :: "shape \<Rightarrow> nat" where
  "channels s = (case s of (h, w, c) \<Rightarrow> c)"

subsection \<open>The layers the module calls\<close>

definition Input :: "shape \<Rightarrow> tensor build" where
  "Input s = new_layer InputLayer [] s"

definition Conv2D ::
  "int \<Rightarrow> nat \<times> nat \<Rightarrow> nat \<times> nat \<Rightarrow> string option \<Rightarrow> bool \<Rightarrow> tensor \<Rightarrow> tensor build" where
  "Conv2D filters kernel_size strides padding use_bias x =
     (case (tshape x, kernel_size, strides) of ((h, w, c), (kh, kw), (sh, sw)) \<Rightarrow>
        if filters \<le> 0 \<or> kh = 0 \<or> kw = 0 \<or> sh = 0 \<or> sw = 0 then raise KerasError
        else (case padding of None \<Rightarrow> raise KerasError
          | Some p \<Rightarrow>
             (case (conv_output_length h kh p sh, conv_output_length w kw p sw) of
                (Some h', Some w') \<Rightarrow>
                   new_layer (Conv2DLayer filters kernel_size strides p use_bias) [x]
                     (h', w', nat filters)
              | _ \<Rightarrow> raise KerasError)))"

definition Conv2DTranspose ::
  "int \<Rightarrow> nat \<times> nat \<Rightarrow> nat \<times> nat \<Rightarrow> string option \<Rightarrow> tensor \<Rightarrow> tensor build" where
  "Conv2DTranspose filters kernel_size strides padding x =
     (case (tshape x, kernel_size, strides) of ((h, w, c), (kh, kw), (sh, sw)) \<Rightarrow>
        if filters \<le> 0 \<or> kh = 0 \<or> kw = 0 \<or> sh = 0 \<or> sw = 0 then raise KerasError
        else (case padding of None \<Rightarrow> raise KerasError
          | Some p \<Rightarrow>
             (case (deconv_output_length h kh p sh, deconv_output_length w kw p sw) of
                (Some h', Some w') \<Rightarrow>
                   new_layer (Conv2DTransposeLayer filters kernel_size strides p) [x]
                     (h', w', nat filters)
              | _ \<Rightarrow> raise KerasError)))"

definition MaxPooling2D :: "nat \<times> nat \<Rightarrow> tensor \<Rightarrow> tensor build" where
  \<comment> \<open>strides default to the pool size, padding to \<^verbatim>\<open>valid\<close>\<close>
  "MaxPooling2D pool_size x =
     (case (tshape x, pool_size) of ((h, w, c), (ph, pw)) \<Rightarrow>
        if ph = 0 \<or> pw = 0 then raise KerasError
        else (case (conv_output_length h ph ''valid'' ph,
                    conv_output_length w pw ''valid'' pw) of
                (Some h', Some w') \<Rightarrow> new_layer (MaxPooling2DLayer pool_size) [x] (h', w', c)
              | _ \<Rightarrow> raise KerasError))"

definition BatchNormalization :: "bool \<Rightarrow> tensor \<Rightarrow> tensor build" where
  "BatchNormalization scale x = new_layer (BatchNormalizationLayer scale) [x] (tshape x)"

definition Activation :: "string \<Rightarrow> tensor \<Rightarrow> tensor build" where
  "Activation activation x =
     (if known_activation activation
      then new_layer (ActivationLayer activation) [x] (tshape x)
      else raise KerasError)"

definition Concatenate :: "tensor list \<Rightarrow> tensor build" where
  \<comment> \<open>along the last axis: all other axes must agree\<close>
  "Concatenate xs =
     (case xs of
        x # y # ys \<Rightarrow>
          if list_all (\<lambda>z. spatial (tshape z) = spatial (tshape x)) (y # ys)
          then new_layer ConcatenateLayer xs
                 (fst (tshape x), fst (snd (tshape x)),
                  sum_list (map (\<lambda>z. channels (tshape z)) xs))
          else raise KerasError
      | _ \<Rightarrow> raise KerasError)"

definition add :: "tensor list \<Rightarrow> tensor build" where
  \<comment> \<open>element-wise sum: the shapes must be broadcastable\<close>
  "add xs =
     (case xs of
        x # y # ys \<Rightarrow>
          (case broadcast_all (tshape x) (map tshape (y # ys)) of
             Some s \<Rightarrow> new_layer AddLayer xs s
           | None \<Rightarrow> raise KerasError)
      | _ \<Rightarrow> raise KerasError)"

record model =
  inputs :: "tensor list"
  outputs :: "tensor list"

definition is_input_tensor :: "graph \<Rightarrow> tensor \<Rightarrow> bool" where
  "is_input_tensor g x \<longleftrightarrow> is_tensor_of g x \<and> config (g ! tid x) = InputLayer"

definition Model :: "tensor list \<Rightarrow> tensor list \<Rightarrow> model build" where
  "Model ins outs g =
     (if ins \<noteq> [] \<and> outs \<noteq> [] \<and> list_all (is_input_tensor g) ins
         \<and> list_all (is_tensor_of g) outs
      then Inr (\<lparr>inputs = ins, outputs = outs\<rparr>, g)
      else Inl KerasError)"

section \<open>The module \<^verbatim>\<open>segmed/models/multiresunet.py\<close>\<close>

definition conv2d ::
  "tensor \<Rightarrow> int \<Rightarrow> nat \<times> nat \<Rightarrow> string option \<Rightarrow> nat \<times> nat \<Rightarrow> string option
     \<Rightarrow> tensor build" where
  "conv2d x filters shape padding strides activation =
     and_then (Conv2D filters shape strides padding False x) (\<lambda>x.
     and_then (BatchNormalization False x) (\<lambda>x.
     (case activation of
        None \<Rightarrow> ret x
      | Some a \<Rightarrow> and_then (Activation a x) (\<lambda>x. ret x))))"

definition MultiResBlock :: "int \<Rightarrow> tensor \<Rightarrow> pyfloat option \<Rightarrow> tensor build" where
  "MultiResBlock u_val input alpha =
     and_then (py (mul_int_float u_val alpha)) (\<lambda>weight.
     and_then (py (py_int (fmul weight lit_0_167))) (\<lambda>n1.
     and_then (py (py_int (fmul weight lit_0_333))) (\<lambda>n2.
     and_then (py (py_int (fmul weight lit_0_5))) (\<lambda>n3.
     and_then (conv2d input (n1 + n2 + n3) (1, 1) (Some ''same'') (1, 1) None)
       (\<lambda>dimension_conservation.
     and_then (py (py_int (fmul weight lit_0_167))) (\<lambda>n.
     and_then (conv2d input n (3, 3) (Some ''same'') (1, 1) (Some ''relu'')) (\<lambda>conv3x3.
     and_then (py (py_int (fmul weight lit_0_333))) (\<lambda>n.
     and_then (conv2d conv3x3 n (3, 3) (Some ''same'') (1, 1) (Some ''relu'')) (\<lambda>conv5x5.
     and_then (py (py_int (fmul weight lit_0_5))) (\<lambda>n.
     and_then (conv2d conv5x5 n (3, 3) (Some ''same'') (1, 1) (Some ''relu'')) (\<lambda>conv7x7.
     and_then (Concatenate [conv3x3, conv5x5, conv7x7]) (\<lambda>out.
     and_then (BatchNormalization True out) (\<lambda>out.
     and_then (add [dimension_conservation, out]) (\<lambda>out.
     and_then (Activation ''relu'' out) (\<lambda>out.
     and_then (BatchNormalization True out) (\<lambda>out.
     ret out))))))))))))))))"

fun ResPath_loop :: "int list \<Rightarrow> int \<Rightarrow> tensor \<Rightarrow> tensor build" where
  \<comment> \<open>the \<^verbatim>\<open>for\<close> loop of \<^verbatim>\<open>ResPath\<close>, over the values of its range\<close>
  "ResPath_loop [] filters out = ret out"
| "ResPath_loop (_ # rest) filters out =
     and_then (ret out) (\<lambda>residual.
     and_then (conv2d residual filters (1, 1) (Some ''same'') (1, 1) None) (\<lambda>residual.
     and_then (conv2d out filters (3, 3) (Some ''same'') (1, 1) (Some ''relu'')) (\<lambda>out.
     and_then (add [residual, out]) (\<lambda>out.
     and_then (Activation ''relu'' out) (\<lambda>out.
     and_then (BatchNormalization True out) (\<lambda>out.
     ResPath_loop rest filters out))))))"

definition ResPath :: "int \<Rightarrow> tensor \<Rightarrow> int option \<Rightarrow> tensor build" where
  "ResPath filters input path_length =
     and_then (conv2d input filters (1, 1) (Some ''same'') (1, 1) None) (\<lambda>residual.
     and_then (conv2d input filters (3, 3) (Some ''same'') (1, 1) (Some ''relu'')) (\<lambda>out.
     and_then (add [residual, out]) (\<lambda>out.
     and_then (Activation ''relu'' out) (\<lambda>out.
     and_then (BatchNormalization True out) (\<lambda>out.
     (case path_length of
        None \<Rightarrow> ret out
      | Some n \<Rightarrow> ResPath_loop (py_range (n - 1)) filters out))))))"

definition MultiResUnet :: "shape \<Rightarrow> model build" where
  "MultiResUnet input_size =
     and_then (Input input_size) (\<lambda>inputs.
     and_then (MultiResBlock 32 inputs (Some lit_1_67)) (\<lambda>mresblock_1.
     and_then (MaxPooling2D (2, 2) mresblock_1) (\<lambda>pool_1.
     and_then (ResPath 32 mresblock_1 (Some 4)) (\<lambda>mresblock_1.
     and_then (MultiResBlock 64 pool_1 (Some lit_1_67)) (\<lambda>mresblock_2.
     and_then (MaxPooling2D (2, 2) mresblock_2) (\<lambda>pool_2.
     and_then (ResPath 64 mresblock_2 (Some 3)) (\<lambda>mresblock_2.
     and_then (MultiResBlock 128 pool_2 (Some lit_1_67)) (\<lambda>mresblock_3.
     and_then (MaxPooling2D (2, 2) mresblock_3) (\<lambda>pool_3.
     and_then (ResPath 128 mresblock_3 (Some 2)) (\<lambda>mresblock_3.
     and_then (MultiResBlock 256 pool_3 (Some lit_1_67)) (\<lambda>mresblock_4.
     and_then (MaxPooling2D (2, 2) mresblock_4) (\<lambda>pool_4.
     and_then (ResPath 256 mresblock_4 None) (\<lambda>mresblock_4.
     and_then (MultiResBlock 512 pool_4 (Some lit_1_67)) (\<lambda>mresblock5.
     and_then (Conv2DTranspose 256 (2, 2) (2, 2) (Some ''same'') mresblock5) (\<lambda>up_6.
     and_then (Concatenate [up_6, mresblock_4]) (\<lambda>up_6.
     and_then (MultiResBlock 256 up_6 (Some lit_1_67)) (\<lambda>mresblock_6.
     and_then (Conv2DTranspose 128 (2, 2) (2, 2) (Some ''same'') mresblock_6) (\<lambda>up_7.
     and_then (Concatenate [up_7, mresblock_3]) (\<lambda>up_7.
     and_then (MultiResBlock 128 up_7 (Some lit_1_67)) (\<lambda>mresblock7.
     and_then (Conv2DTranspose 64 (2, 2) (2, 2) (Some ''same'') mresblock7) (\<lambda>up_8.
     and_then (Concatenate [up_8, mresblock_2]) (\<lambda>up_8.
     and_then (MultiResBlock 64 up_8 (Some lit_1_67)) (\<lambda>mresblock8.
     and_then (Conv2DTranspose 32 (2, 2) (2, 2) (Some ''same'') mresblock8) (\<lambda>up_9.
     and_then (Concatenate [up_9, mresblock_1]) (\<lambda>up_9.
     and_then (MultiResBlock 32 up_9 (Some lit_1_67)) (\<lambda>mresblock9.
     and_then (conv2d mresblock9 1 (1, 1) (Some ''same'') (1, 1) (Some ''sigmoid''))
       (\<lambda>conv_10.
     and_then (Model [inputs] [conv_10]) (\<lambda>model.
     ret model))))))))))))))))))))))))))))"

section \<open>The structure the specification describes\<close>

subsection \<open>Residual units of a residual path\<close>

text \<open>
  One residual unit: a 1x1 shortcut convolution added to a 3x3 convolution, then relu and
  batch normalization. A path of \<open>n\<close> units feeds each unit with the output of the one
  before.
\<close>

definition residual_unit :: "int \<Rightarrow> tensor \<Rightarrow> tensor build" where
  "residual_unit filters x =
     and_then (conv2d x filters (1, 1) (Some ''same'') (1, 1) None) (\<lambda>shortcut.
     and_then (conv2d x filters (3, 3) (Some ''same'') (1, 1) (Some ''relu'')) (\<lambda>y.
     and_then (add [shortcut, y]) (\<lambda>y.
     and_then (Activation ''relu'' y) (\<lambda>y.
     BatchNormalization True y))))"

definition path_units :: "int option \<Rightarrow> nat" where
  "path_units path_length =
     (case path_length of None \<Rightarrow> 1 | Some n \<Rightarrow> 1 + nat (max 0 (n - 1)))"

primrec residual_units :: "nat \<Rightarrow> int \<Rightarrow> tensor \<Rightarrow> tensor build" where
  "residual_units 0 filters x = ret x"
| "residual_units (Suc n) filters x =
     and_then (residual_unit filters x) (residual_units n filters)"

subsection \<open>The U shape\<close>

text \<open>
  An encoder level is a block, a 2x2 max-pooling of the block and a residual path on the
  block (the skip connection); it hands the pooled tensor down and the skip tensor
  across. A decoder level is a transposed convolution with stride 2x2, the concatenation
  with the skip tensor of the level of the same width, and a block.
\<close>

definition encoder_level :: "int \<Rightarrow> int option \<Rightarrow> tensor \<Rightarrow> (tensor \<times> tensor) build" where
  "encoder_level u_val path_length x =
     and_then (MultiResBlock u_val x (Some lit_1_67)) (\<lambda>block.
     and_then (MaxPooling2D (2, 2) block) (\<lambda>pool.
     and_then (ResPath u_val block path_length) (\<lambda>skip.
     ret (pool, skip))))"

definition decoder_level :: "int \<Rightarrow> tensor \<Rightarrow> tensor \<Rightarrow> tensor build" where
  "decoder_level u_val x skip =
     and_then (Conv2DTranspose u_val (2, 2) (2, 2) (Some ''same'') x) (\<lambda>up.
     and_then (Concatenate [up, skip]) (\<lambda>up.
     MultiResBlock u_val up (Some lit_1_67)))"

fun encoder ::
  "(int \<times> int option) list \<Rightarrow> tensor \<Rightarrow> tensor list \<Rightarrow> (tensor \<times> tensor list) build" where
  "encoder [] x skips = ret (x, skips)"
| "encoder ((u_val, path_length) # levels) x skips =
     and_then (encoder_level u_val path_length x) (\<lambda>(pool, skip).
     encoder levels pool (skip # skips))"

fun decoder :: "(int \<times> tensor) list \<Rightarrow> tensor \<Rightarrow> tensor build" where
  "decoder [] x = ret x"
| "decoder ((u_val, skip) # levels) x =
     and_then (decoder_level u_val x skip) (decoder levels)"

definition U_shape :: "shape \<Rightarrow> model build" where
  "U_shape input_size =
     and_then (Input input_size) (\<lambda>inputs.
     and_then (encoder [(32, Some 4), (64, Some 3), (128, Some 2), (256, None)] inputs [])
       (\<lambda>(bottom, skips).
     and_then (MultiResBlock 512 bottom (Some lit_1_67)) (\<lambda>bottleneck.
     and_then (decoder (zip [256, 128, 64, 32] skips) bottleneck) (\<lambda>top.
     and_then (conv2d top 1 (1, 1) (Some ''same'') (1, 1) (Some ''sigmoid'')) (\<lambda>final.
     Model [inputs] [final])))))"

section \<open>Properties of graphs\<close>

text \<open>
  In an ordered graph every layer is applied to outputs of layers constructed before it;
  \<open>depends_on\<close> is the dependency relation between the layers of a graph.
\<close>

definition ordered :: "graph \<Rightarrow> bool" where
  "ordered g \<longleftrightarrow>
     list_all (\<lambda>(i, l). list_all (\<lambda>t. tid t < i) (inbound l)) (enumerate 0 g)"

definition depends_on :: "graph \<Rightarrow> (nat \<times> nat) set" where
  "depends_on g = set (concat (map (\<lambda>(i, l). map (\<lambda>t. (tid t, i)) (inbound l)) (enumerate 0 g)))"

fun layer_class :: "layer_op \<Rightarrow> string" where
  "layer_class InputLayer = ''InputLayer''"
| "layer_class (Conv2DLayer f k s p b) = ''Conv2D''"
| "layer_class (BatchNormalizationLayer s) = ''BatchNormalization''"
| "layer_class (ActivationLayer a) = ''Activation''"
| "layer_class ConcatenateLayer = ''Concatenate''"
| "layer_class AddLayer = ''Add''"
| "layer_class (MaxPooling2DLayer p) = ''MaxPooling2D''"
| "layer_class (Conv2DTransposeLayer f k s p) = ''Conv2DTranspose''"

definition count_class :: "string \<Rightarrow> layer list \<Rightarrow> nat" where
  "count_class c ls = length (filter (\<lambda>l. layer_class (config l) = c) ls)"

text \<open>The classes the specification lists, and the ones it leaves out.\<close>

definition listed_classes :: "string list" where
  "listed_classes =
     [''Conv2D'', ''BatchNormalization'', ''MaxPooling2D'', ''Concatenate'', ''Conv2DTranspose'']"

definition unlisted_classes :: "string list" where
  "unlisted_classes = [''InputLayer'', ''Activation'', ''Add'']"

definition census :: "layer list \<Rightarrow> nat list" where
  "census ls = map (\<lambda>c. count_class c ls) (listed_classes @ unlisted_classes)"

text \<open>
  Shape compatibility of one layer with the tensors it is applied to: an element-wise
  sum receives tensors of one shape, a concatenation tensors of one height and width, a
  pooling halves height and width exactly and a transposed convolution doubles them.
\<close>

definition same_shapes :: "tensor list \<Rightarrow> bool" where
  "same_shapes ts = (case ts of [] \<Rightarrow> True | t # us \<Rightarrow> list_all (\<lambda>u. tshape u = tshape t) us)"

definition same_spatial :: "tensor list \<Rightarrow> bool" where
  "same_spatial ts =
     (case ts of [] \<Rightarrow> True
      | t # us \<Rightarrow> list_all (\<lambda>u. spatial (tshape u) = spatial (tshape t)) us)"

definition halves :: "shape \<Rightarrow> shape \<Rightarrow> bool" where
  "halves s s' = (case (s, s') of ((h, w, c), (h', w', c')) \<Rightarrow> h = 2 * h' \<and> w = 2 * w')"

definition doubles :: "shape \<Rightarrow> shape \<Rightarrow> bool" where
  "doubles s s' = (case (s, s') of ((h, w, c), (h', w', c')) \<Rightarrow> h' = 2 * h \<and> w' = 2 * w)"

definition compatible :: "layer \<Rightarrow> bool" where
  "compatible l =
     (case config l of
        AddLayer \<Rightarrow> 2 \<le> length (inbound l) \<and> same_shapes (inbound l)
      | ConcatenateLayer \<Rightarrow> 2 \<le> length (inbound l) \<and> same_spatial (inbound l)
      | MaxPooling2DLayer p \<Rightarrow> list_all (\<lambda>t. halves (tshape t) (output_shape l)) (inbound l)
      | Conv2DTransposeLayer f k s p \<Rightarrow>
          list_all (\<lambda>t. doubles (tshape t) (output_shape l)) (inbound l)
      | _ \<Rightarrow> True)"

text \<open>The filter counts and kernel sizes of the convolutions of a list of layers.\<close>

fun conv_spec :: "layer_op \<Rightarrow> (int \<times> nat \<times> nat) list" where
  "conv_spec (Conv2DLayer f k s p b) = [(f, k)]"
| "conv_spec _ = []"

definition convolutions :: "layer list \<Rightarrow> (int \<times> nat \<times> nat) list" where
  "convolutions ls = concat (map (\<lambda>l. conv_spec (config l)) ls)"

fun filter_count :: "layer_op \<Rightarrow> int list" where
  "filter_count (Conv2DLayer f k s p b) = [f]"
| "filter_count (Conv2DTransposeLayer f k s p) = [f]"
| "filter_count _ = []"

text \<open>Summary of the layers a computation has added.\<close>

definition summary :: "layer list \<Rightarrow> nat \<Rightarrow> nat list \<Rightarrow> bool" where
  "summary ls n cs \<longleftrightarrow> length ls = n \<and> list_all compatible ls \<and> census ls = cs"

text \<open>
  The number of output channels of a block with the default \<^verbatim>\<open>alpha\<close>: the sum of its
  three filter counts, when the arithmetic raises nothing and gives positive counts.
\<close>

definition default_block :: "int \<Rightarrow> nat \<Rightarrow> bool" where
  "default_block u_val n \<longleftrightarrow>
     (case mul_int_float u_val (Some lit_1_67) of
        Inl e \<Rightarrow> False
      | Inr weight \<Rightarrow>
          (case (py_int (fmul weight lit_0_167), py_int (fmul weight lit_0_333),
                 py_int (fmul weight lit_0_5)) of
             (Inr fa, Inr fb, Inr fc) \<Rightarrow> 0 < fa \<and> 0 < fb \<and> 0 < fc \<and> n = nat (fa + fb + fc)
           | _ \<Rightarrow> False))"

text \<open>A computation succeeds from a state when it returns and only adds layers.\<close>

definition succeeds :: "'a build \<Rightarrow> graph \<Rightarrow> ('a \<Rightarrow> layer list \<Rightarrow> bool) \<Rightarrow> bool" where
  "succeeds m g Q \<longleftrightarrow> (\<exists>x ls. m g = Inr (x, g @ ls) \<and> Q x ls)"

definition valid_in :: "graph \<Rightarrow> tensor list \<Rightarrow> bool" where
  "valid_in g xs = list_all (is_tensor_of g) xs"

definition preserves :: "(graph \<Rightarrow> bool) \<Rightarrow> 'a build \<Rightarrow> bool" where
  "preserves I m \<longleftrightarrow> (\<forall>g x g'. I g \<longrightarrow> m g = Inr (x, g') \<longrightarrow> I g')"

subsection \<open>The same graph in another framework state\<close>

text \<open>
  A graph built after \<open>k\<close> other layers is the graph built in a fresh state with every
  layer position moved by \<open>k\<close>.
\<close>

definition shift_tensor :: "nat \<Rightarrow> tensor \<Rightarrow> tensor" where
  "shift_tensor k t = t\<lparr>tid := tid t + k\<rparr>"

definition shift_layer :: "nat \<Rightarrow> layer \<Rightarrow> layer" where
  "shift_layer k l = l\<lparr>inbound := map (shift_tensor k) (inbound l)\<rparr>"

definition shift_model :: "nat \<Rightarrow> model \<Rightarrow> model" where
  "shift_model k m =
     \<lparr>inputs = map (shift_tensor k) (inputs m), outputs = map (shift_tensor k) (outputs m)\<rparr>"

definition relocate :: "('a \<Rightarrow> 'b) \<Rightarrow> graph \<Rightarrow> error + ('a \<times> graph) \<Rightarrow> error + ('b \<times> graph)" where
  "relocate f g0 r =
     (case r of Inl e \<Rightarrow> Inl e
      | Inr (x, g) \<Rightarrow> Inr (f x, g0 @ map (shift_layer (length g0)) g))"

definition simulates :: "graph \<Rightarrow> ('a \<Rightarrow> 'b) \<Rightarrow> 'b build \<Rightarrow> 'a build \<Rightarrow> bool" where
  "simulates g0 f m' m \<longleftrightarrow>
     (\<forall>g. m' (g0 @ map (shift_layer (length g0)) g) = relocate f g0 (m g))"

section \<open>Evaluating the float arithmetic\<close>

lemma floor_rat_numeral [simp]:
  "\<lfloor>numeral a / numeral b :: rat\<rfloor> = numeral a div numeral b"
  using floor_divide_of_int_eq [of "numeral a" "numeral b", where ?'a = rat] by simp

lemma ceiling_rat_numeral [simp]:
  "\<lceil>numeral a / numeral b :: rat\<rceil> = - ((- numeral a) div numeral b)"
  using floor_divide_of_int_eq [of "- numeral a" "numeral b", where ?'a = rat]
  by (simp add: ceiling_def)

lemma pow2_powi: "pow2 e = 2 powi e"
  by (simp add: pow2_def power_int_def inverse_eq_divide power_one_over)

text \<open>
  Rounding in the normal range: with the exponent \<open>e\<close> and the rounded significand
  \<open>m\<close> at hand no overflow is possible.
\<close>

lemma round64_eval:
  assumes "0 < x" and "ilog2 x = e" and "- 1022 \<le> e" and "e \<le> 1022"
    and "round_half_even (x / pow2 (e - 52)) = m" and "m \<le> 2 ^ 53"
  shows "round64 x = Finite (of_int m * pow2 (e - 52))"
proof -
  have "(of_int m :: rat) \<le> of_int (2 ^ 53)"
    using assms(6) by (simp only: of_int_le_iff)
  then have m: "(of_int m :: rat) \<le> 2 powi 53"
    by simp
  have "(2::rat) powi (e - 52) \<le> 2 powi 970"
    by (rule power_int_increasing) (use assms(4) in simp_all)
  then have "of_int m * (2::rat) powi (e - 52) \<le> 2 powi 53 * 2 powi 970"
    using m by (intro mult_mono) simp_all
  also have "\<dots> = 2 powi 1023"
    by simp
  also have "\<dots> < 2 powi 1024"
    by simp
  finally have "\<not> pow2 1024 \<le> of_int m * pow2 (e - 52)"
    by (simp only: pow2_powi not_le)
  moreover have "max (ilog2 \<bar>x\<bar>) (- 1022) = e"
    using assms(1-3) by simp
  moreover have "\<bar>x\<bar> = x" "x \<noteq> 0" "0 < x"
    using assms(1) by simp_all
  ultimately show ?thesis
    using assms(5) by (simp only: round64_def Let_def if_False if_True)
qed

lemma lit_1_67_eq: "lit_1_67 = Finite (940126422213591 / 562949953421312)"
  unfolding lit_1_67_def
  using round64_eval [of "167 / 100" "0" 7521011377708728]
  by (simp add: ilog2_def round_half_even_def pow2_def Let_def)

lemma lit_0_167_eq: "lit_0_167 = Finite (6016809102166983 / 36028797018963968)"
  unfolding lit_0_167_def
  using round64_eval [of "167 / 1000" "-3" 6016809102166983]
  by (simp add: ilog2_def round_half_even_def pow2_def Let_def)

lemma lit_0_333_eq: "lit_0_333 = Finite (5998794703657501 / 18014398509481984)"
  unfolding lit_0_333_def
  using round64_eval [of "333 / 1000" "-2" 5998794703657501]
  by (simp add: ilog2_def round_half_even_def pow2_def Let_def)

lemma lit_0_5_eq: "lit_0_5 = Finite (1 / 2)"
  unfolding lit_0_5_def
  using round64_eval [of "1 / 2" "-1" 4503599627370496]
  by (simp add: ilog2_def round_half_even_def pow2_def Let_def)

lemma float_of_int_32: "float_of_int 32 = Inr (Finite 32)"
  unfolding float_of_int_def
  using round64_eval [of "32" "5" 4503599627370496]
  by (simp add: ilog2_def round_half_even_def pow2_def Let_def)

lemma weight_32: "mul_int_float 32 (Some lit_1_67) = Inr (Finite (940126422213591 / 17592186044416))"
  unfolding mul_int_float_def float_of_int_32 lit_1_67_eq
  using round64_eval [of "940126422213591 / 17592186044416" "5" 7521011377708728]
  by (simp add: ilog2_def round_half_even_def pow2_def Let_def)

lemma filters_32_1: "py_int (fmul (Finite (940126422213591 / 17592186044416)) lit_0_167) = Inr 8"
  unfolding py_int_def lit_0_167_eq
  using round64_eval [of "5656561214362414447265774065953 / 633825300114114700748351602688" "3" 5024035600309431]
  by (simp add: ilog2_def round_half_even_def pow2_def Let_def)

lemma filters_32_2: "py_int (fmul (Finite (940126422213591 / 17592186044416)) lit_0_333) = Inr 17"
  unfolding py_int_def lit_0_333_eq
  using round64_eval [of "5639625402343365288140331296091 / 316912650057057350374175801344" "4" 5008993577554013]
  by (simp add: ilog2_def round_half_even_def pow2_def Let_def)

lemma filters_32_3: "py_int (fmul (Finite (940126422213591 / 17592186044416)) lit_0_5) = Inr 26"
  unfolding py_int_def lit_0_5_eq
  using round64_eval [of "940126422213591 / 35184372088832" "4" 7521011377708728]
  by (simp add: ilog2_def round_half_even_def pow2_def Let_def)

lemma float_of_int_64: "float_of_int 64 = Inr (Finite 64)"
  unfolding float_of_int_def
  using round64_eval [of "64" "6" 4503599627370496]
  by (simp add: ilog2_def round_half_even_def pow2_def Let_def)

lemma weight_64: "mul_int_float 64 (Some lit_1_67) = Inr (Finite (940126422213591 / 8796093022208))"
  unfolding mul_int_float_def float_of_int_64 lit_1_67_eq
  using round64_eval [of "940126422213591 / 8796093022208" "6" 7521011377708728]
  by (simp add: ilog2_def round_half_even_def pow2_def Let_def)

lemma filters_64_1: "py_int (fmul (Finite (940126422213591 / 8796093022208)) lit_0_167) = Inr 17"
  unfolding py_int_def lit_0_167_eq
  using round64_eval [of "5656561214362414447265774065953 / 316912650057057350374175801344" "4" 5024035600309431]
  by (simp add: ilog2_def round_half_even_def pow2_def Let_def)

lemma filters_64_2: "py_int (fmul (Finite (940126422213591 / 8796093022208)) lit_0_333) = Inr 35"
  unfolding py_int_def lit_0_333_eq
  using round64_eval [of "5639625402343365288140331296091 / 158456325028528675187087900672" "5" 5008993577554013]
  by (simp add: ilog2_def round_half_even_def pow2_def Let_def)

lemma filters_64_3: "py_int (fmul (Finite (940126422213591 / 8796093022208)) lit_0_5) = Inr 53"
  unfolding py_int_def lit_0_5_eq
  using round64_eval [of "940126422213591 / 17592186044416" "5" 7521011377708728]
  by (simp add: ilog2_def round_half_even_def pow2_def Let_def)

lemma float_of_int_128: "float_of_int 128 = Inr (Finite 128)"
  unfolding float_of_int_def
  using round64_eval [of "128" "7" 4503599627370496]
  by (simp add: ilog2_def round_half_even_def pow2_def Let_def)

lemma weight_128: "mul_int_float 128 (Some lit_1_67) = Inr (Finite (940126422213591 / 4398046511104))"
  unfolding mul_int_float_def float_of_int_128 lit_1_67_eq
  using round64_eval [of "940126422213591 / 4398046511104" "7" 7521011377708728]
  by (simp add: ilog2_def round_half_even_def pow2_def Let_def)

lemma filters_128_1: "py_int (fmul (Finite (940126422213591 / 4398046511104)) lit_0_167) = Inr 35"
  unfolding py_int_def lit_0_167_eq
  using round64_eval [of "5656561214362414447265774065953 / 158456325028528675187087900672" "5" 5024035600309431]
  by (simp add: ilog2_def round_half_even_def pow2_def Let_def)

lemma filters_128_2: "py_int (fmul (Finite (940126422213591 / 4398046511104)) lit_0_333) = Inr 71"
  unfolding py_int_def lit_0_333_eq
  using round64_eval [of "5639625402343365288140331296091 / 79228162514264337593543950336" "6" 5008993577554013]
  by (simp add: ilog2_def round_half_even_def pow2_def Let_def)

lemma filters_128_3: "py_int (fmul (Finite (940126422213591 / 4398046511104)) lit_0_5) = Inr 106"
  unfolding py_int_def lit_0_5_eq
  using round64_eval [of "940126422213591 / 8796093022208" "6" 7521011377708728]
  by (simp add: ilog2_def round_half_even_def pow2_def Let_def)

lemma float_of_int_256: "float_of_int 256 = Inr (Finite 256)"
  unfolding float_of_int_def
  using round64_eval [of "256" "8" 4503599627370496]
  by (simp add: ilog2_def round_half_even_def pow2_def Let_def)

lemma weight_256: "mul_int_float 256 (Some lit_1_67) = Inr (Finite (940126422213591 / 2199023255552))"
  unfolding mul_int_float_def float_of_int_256 lit_1_67_eq
  using round64_eval [of "940126422213591 / 2199023255552" "8" 7521011377708728]
  by (simp add: ilog2_def round_half_even_def pow2_def Let_def)

lemma filters_256_1: "py_int (fmul (Finite (940126422213591 / 2199023255552)) lit_0_167) = Inr 71"
  unfolding py_int_def lit_0_167_eq
  using round64_eval [of "5656561214362414447265774065953 / 79228162514264337593543950336" "6" 5024035600309431]
  by (simp add: ilog2_def round_half_even_def pow2_def Let_def)

lemma filters_256_2: "py_int (fmul (Finite (940126422213591 / 2199023255552)) lit_0_333) = Inr 142"
  unfolding py_int_def lit_0_333_eq
  using round64_eval [of "5639625402343365288140331296091 / 39614081257132168796771975168" "7" 5008993577554013]
  by (simp add: ilog2_def round_half_even_def pow2_def Let_def)

lemma filters_256_3: "py_int (fmul (Finite (940126422213591 / 2199023255552)) lit_0_5) = Inr 213"
  unfolding py_int_def lit_0_5_eq
  using round64_eval [of "940126422213591 / 4398046511104" "7" 7521011377708728]
  by (simp add: ilog2_def round_half_even_def pow2_def Let_def)

lemma float_of_int_512: "float_of_int 512 = Inr (Finite 512)"
  unfolding float_of_int_def
  using round64_eval [of "512" "9" 4503599627370496]
  by (simp add: ilog2_def round_half_even_def pow2_def Let_def)

lemma weight_512: "mul_int_float 512 (Some lit_1_67) = Inr (Finite (940126422213591 / 1099511627776))"
  unfolding mul_int_float_def float_of_int_512 lit_1_67_eq
  using round64_eval [of "940126422213591 / 1099511627776" "9" 7521011377708728]
  by (simp add: ilog2_def round_half_even_def pow2_def Let_def)

lemma filters_512_1: "py_int (fmul (Finite (940126422213591 / 1099511627776)) lit_0_167) = Inr 142"
  unfolding py_int_def lit_0_167_eq
  using round64_eval [of "5656561214362414447265774065953 / 39614081257132168796771975168" "7" 5024035600309431]
  by (simp add: ilog2_def round_half_even_def pow2_def Let_def)

lemma filters_512_2: "py_int (fmul (Finite (940126422213591 / 1099511627776)) lit_0_333) = Inr 284"
  unfolding py_int_def lit_0_333_eq
  using round64_eval [of "5639625402343365288140331296091 / 19807040628566084398385987584" "8" 5008993577554013]
  by (simp add: ilog2_def round_half_even_def pow2_def Let_def)

lemma filters_512_3: "py_int (fmul (Finite (940126422213591 / 1099511627776)) lit_0_5) = Inr 427"
  unfolding py_int_def lit_0_5_eq
  using round64_eval [of "940126422213591 / 2199023255552" "8" 7521011377708728]
  by (simp add: ilog2_def round_half_even_def pow2_def Let_def)

lemma py_range_eval:
  "py_range 3 = [0, 1, 2]" "py_range 2 = [0, 1]" "py_range 1 = [0]" "py_range 0 = []"
  "py_range (- 1) = []"
  by (simp_all add: py_range_def upto.simps)

section \<open>Laws of sequencing\<close>

lemma and_then_ret [simp]: "and_then (ret x) f = f x"
  by (rule ext) (simp add: and_then_def ret_def)

lemma and_then_ret_right [simp]: "and_then m ret = m" "and_then m (\<lambda>x. ret x) = m"
  by (rule ext, simp add: and_then_def ret_def split: sum.split)+

lemma and_then_raise [simp]: "and_then (raise e) f = raise e"
  by (rule ext) (simp add: and_then_def raise_def)

lemma and_then_assoc:
  "and_then (and_then m f) h = and_then m (\<lambda>x. and_then (f x) h)"
  by (rule ext) (simp add: and_then_def split: sum.split)

lemma and_then_Inr: "m g = Inr (x, g') \<Longrightarrow> and_then m f g = f x g'"
  by (simp add: and_then_def)

lemma and_then_Inl: "m g = Inl e \<Longrightarrow> and_then m f g = Inl e"
  by (simp add: and_then_def)

section \<open>The residual path\<close>

lemma length_py_range: "length (py_range n) = nat n"
  by (simp add: py_range_def)

lemma residual_units_0: "residual_units 0 filters = ret"
  by (rule ext) simp

lemma ResPath_loop_units:
  "ResPath_loop xs filters = residual_units (length xs) filters"
proof (induction xs)
  case Nil
  show ?case
    by (rule ext) simp
next
  case (Cons x xs)
  show ?case
    by (rule ext) (simp add: Cons.IH residual_unit_def and_then_assoc)
qed

lemma ResPath_first_unit:
  "ResPath filters input path_length =
     and_then (residual_unit filters input) (\<lambda>out.
       case path_length of None \<Rightarrow> ret out
       | Some n \<Rightarrow> ResPath_loop (py_range (n - 1)) filters out)"
  by (simp add: ResPath_def residual_unit_def and_then_assoc)

lemma ResPath_units:
  "ResPath filters input path_length = residual_units (path_units path_length) filters input"
proof (cases path_length)
  case None
  then show ?thesis
    by (simp add: ResPath_first_unit residual_units_0 path_units_def)
next
  case (Some k)
  have "nat (k - 1) = nat (max 0 (k - 1))"
    by simp
  then show ?thesis
    unfolding Some
    by (simp add: ResPath_first_unit ResPath_loop_units length_py_range path_units_def
        del: nat_diff_distrib)
qed


section \<open>The U shape of the network\<close>

lemma MultiResUnet_U_shape: "MultiResUnet input_size = U_shape input_size"
  by (simp add: MultiResUnet_def U_shape_def encoder_level_def decoder_level_def
      and_then_assoc)


section \<open>Successful construction\<close>

lemmas layers_defs = Input_def Conv2D_def Conv2DTranspose_def MaxPooling2D_def
  BatchNormalization_def Activation_def Concatenate_def add_def new_layer_def
  conv_output_length_def deconv_output_length_def known_activation_def broadcast_dim_def
  broadcast_shape_def spatial_def channels_def

lemmas build_defs = and_then_def ret_def raise_def py_def

lemmas summary_defs = summary_def census_def count_class_def listed_classes_def
  unlisted_classes_def compatible_def same_shapes_def same_spatial_def halves_def
  doubles_def spatial_def

lemma is_tensor_of_append: "is_tensor_of g x \<Longrightarrow> is_tensor_of (g @ ls) x"
  by (simp add: is_tensor_of_def nth_append)

lemma is_tensor_of_new:
  "k < length ls \<Longrightarrow> output_shape (ls ! k) = tshape x \<Longrightarrow> tid x = length g + k \<Longrightarrow>
   is_tensor_of (g @ ls) x"
  by (simp add: is_tensor_of_def nth_append)

lemma valid_in_Nil [simp]: "valid_in g []"
  by (simp add: valid_in_def)

lemma valid_in_Cons [simp]: "valid_in g (x # xs) \<longleftrightarrow> is_tensor_of g x \<and> valid_in g xs"
  by (simp add: valid_in_def)

lemma valid_in_append: "valid_in g xs \<Longrightarrow> valid_in (g @ ls) xs"
  by (induction xs) (simp_all add: is_tensor_of_append)

lemma valid_in_member: "valid_in g xs \<Longrightarrow> x \<in> set xs \<Longrightarrow> is_tensor_of g x"
  by (simp add: valid_in_def list_all_iff)

lemma succeeds_and_then:
  assumes "succeeds m g P"
    and "\<And>x ls. P x ls \<Longrightarrow> succeeds (f x) (g @ ls) (\<lambda>y ls'. Q y (ls @ ls'))"
  shows "succeeds (and_then m f) g Q"
proof -
  from assms(1) obtain x ls where m: "m g = Inr (x, g @ ls)" and "P x ls"
    by (auto simp: succeeds_def)
  from assms(2) [OF \<open>P x ls\<close>] obtain y ls'
    where "f x (g @ ls) = Inr (y, (g @ ls) @ ls')" and "Q y (ls @ ls')"
    by (auto simp: succeeds_def)
  then show ?thesis
    unfolding succeeds_def by (intro exI [of _ y] exI [of _ "ls @ ls'"]) (simp add: and_then_def m)
qed

lemma succeeds_ret: "Q x [] \<Longrightarrow> succeeds (ret x) g Q"
  by (simp add: succeeds_def ret_def)

lemma succeeds_weaken:
  "succeeds m g P \<Longrightarrow> (\<And>x ls. P x ls \<Longrightarrow> Q x ls) \<Longrightarrow> succeeds m g Q"
  by (auto simp: succeeds_def)

lemma census_append: "census (ls @ ls') = map2 (+) (census ls) (census ls')"
  by (simp add: census_def count_class_def listed_classes_def unlisted_classes_def)

lemma census_Nil: "census [] = [0, 0, 0, 0, 0, 0, 0, 0]"
  by (simp add: census_def count_class_def listed_classes_def unlisted_classes_def)

lemma convolutions_append [simp]:
  "convolutions (ls @ ls') = convolutions ls @ convolutions ls'"
  by (simp add: convolutions_def)

lemma convolutions_Nil [simp]: "convolutions [] = []"
  by (simp add: convolutions_def)

lemma summary_Nil: "summary [] 0 [0, 0, 0, 0, 0, 0, 0, 0]"
  by (simp add: summary_def census_Nil)

lemma summary_append:
  "summary ls n cs \<Longrightarrow> summary ls' n' cs' \<Longrightarrow>
   summary (ls @ ls') (n + n') (map2 (+) cs cs')"
  by (simp add: summary_def census_append)

lemma new_layer_succeeds:
  assumes "valid_in g xs" and "set ins \<subseteq> set xs"
  shows "succeeds (new_layer cfg ins s) g
    (\<lambda>t ls. t = \<lparr>tid = length g, tshape = s\<rparr> \<and> valid_in (g @ ls) (t # xs) \<and>
      ls = [\<lparr>config = cfg, inbound = ins, output_shape = s\<rparr>])"
proof -
  have "list_all (is_tensor_of g) ins"
    using assms by (auto simp: list_all_iff valid_in_def)
  then show ?thesis
    unfolding succeeds_def
    by (simp add: new_layer_def is_tensor_of_def valid_in_append [OF assms(1)])
qed

text \<open>
  The layers and helpers applied to tensors of the graph: what they return, that the
  tensors stay valid, and the summary of the layers they add. The side conditions of each
  are one premise.
\<close>

lemma Input_succeeds:
  assumes "valid_in g xs"
  shows "succeeds (Input s) g
    (\<lambda>t ls. t = \<lparr>tid = length g, tshape = s\<rparr> \<and> valid_in (g @ ls) (t # xs) \<and>
      is_input_tensor (g @ ls) t \<and> summary ls 1 [0, 0, 0, 0, 0, 1, 0, 0])"
  unfolding Input_def
  by (rule succeeds_weaken, rule new_layer_succeeds [OF assms])
    (simp_all add: summary_defs is_input_tensor_def is_tensor_of_def)

lemma BatchNormalization_succeeds:
  assumes "valid_in g xs" and "\<lparr>tid = i, tshape = s\<rparr> \<in> set xs"
  shows "succeeds (BatchNormalization scale \<lparr>tid = i, tshape = s\<rparr>) g
    (\<lambda>t ls. t = \<lparr>tid = length g, tshape = s\<rparr> \<and> valid_in (g @ ls) (t # xs) \<and>
      summary ls 1 [0, 1, 0, 0, 0, 0, 0, 0] \<and> convolutions ls = [])"
  unfolding BatchNormalization_def
  by (rule succeeds_weaken, rule new_layer_succeeds [OF assms(1)])
    (use assms(2) in \<open>simp_all add: summary_defs convolutions_def\<close>)

lemma Activation_succeeds:
  assumes "valid_in g xs"
    and "\<lparr>tid = i, tshape = s\<rparr> \<in> set xs \<and> known_activation a"
  shows "succeeds (Activation a \<lparr>tid = i, tshape = s\<rparr>) g
    (\<lambda>t ls. t = \<lparr>tid = length g, tshape = s\<rparr> \<and> valid_in (g @ ls) (t # xs) \<and>
      summary ls 1 [0, 0, 0, 0, 0, 0, 1, 0] \<and> convolutions ls = [])"
proof -
  have a: "known_activation a"
    using assms(2) by simp
  show ?thesis
    unfolding Activation_def if_P [OF a]
    by (rule succeeds_weaken, rule new_layer_succeeds [OF assms(1)])
      (use assms(2) in \<open>simp_all add: summary_defs convolutions_def\<close>)
qed

lemma add_succeeds:
  assumes "valid_in g xs"
    and "\<lparr>tid = i, tshape = s\<rparr> \<in> set xs \<and> \<lparr>tid = j, tshape = s'\<rparr> \<in> set xs \<and> s' = s"
  shows "succeeds (add [\<lparr>tid = i, tshape = s\<rparr>, \<lparr>tid = j, tshape = s'\<rparr>]) g
    (\<lambda>t ls. t = \<lparr>tid = length g, tshape = s\<rparr> \<and> valid_in (g @ ls) (t # xs) \<and>
      summary ls 1 [0, 0, 0, 0, 0, 0, 0, 1] \<and> convolutions ls = [])"
proof -
  from assms(2) have eq: "s' = s"
    and mem: "\<lparr>tid = i, tshape = s\<rparr> \<in> set xs" "\<lparr>tid = j, tshape = s\<rparr> \<in> set xs"
    by auto
  have "broadcast_shape s s = Some s"
    by (cases s) (simp add: broadcast_shape_def broadcast_dim_def)
  then have prog: "add [\<lparr>tid = i, tshape = s\<rparr>, \<lparr>tid = j, tshape = s\<rparr>] =
      new_layer AddLayer [\<lparr>tid = i, tshape = s\<rparr>, \<lparr>tid = j, tshape = s\<rparr>] s"
    by (simp add: add_def)
  show ?thesis
    unfolding eq prog
    by (rule succeeds_weaken, rule new_layer_succeeds [OF assms(1)])
      (use mem in \<open>simp_all add: summary_defs convolutions_def\<close>)
qed

lemma Concatenate3_succeeds:
  assumes "valid_in g xs"
    and "\<lparr>tid = i, tshape = (h, w, c)\<rparr> \<in> set xs \<and>
      \<lparr>tid = j, tshape = (h', w', c')\<rparr> \<in> set xs \<and>
      \<lparr>tid = k, tshape = (h'', w'', c'')\<rparr> \<in> set xs \<and>
      h' = h \<and> w' = w \<and> h'' = h \<and> w'' = w"
  shows "succeeds (Concatenate [\<lparr>tid = i, tshape = (h, w, c)\<rparr>,
      \<lparr>tid = j, tshape = (h', w', c')\<rparr>, \<lparr>tid = k, tshape = (h'', w'', c'')\<rparr>]) g
    (\<lambda>t ls. t = \<lparr>tid = length g, tshape = (h, w, c + c' + c'')\<rparr> \<and>
      valid_in (g @ ls) (t # xs) \<and>
      summary ls 1 [0, 0, 0, 1, 0, 0, 0, 0] \<and> convolutions ls = [])"
proof -
  from assms(2) have eq: "h' = h" "w' = w" "h'' = h" "w'' = w"
    and mem: "\<lparr>tid = i, tshape = (h, w, c)\<rparr> \<in> set xs"
      "\<lparr>tid = j, tshape = (h, w, c')\<rparr> \<in> set xs"
      "\<lparr>tid = k, tshape = (h, w, c'')\<rparr> \<in> set xs"
    by auto
  have prog: "Concatenate [\<lparr>tid = i, tshape = (h, w, c)\<rparr>,
      \<lparr>tid = j, tshape = (h, w, c')\<rparr>, \<lparr>tid = k, tshape = (h, w, c'')\<rparr>] =
    new_layer ConcatenateLayer [\<lparr>tid = i, tshape = (h, w, c)\<rparr>,
      \<lparr>tid = j, tshape = (h, w, c')\<rparr>, \<lparr>tid = k, tshape = (h, w, c'')\<rparr>] (h, w, c + c' + c'')"
    by (simp add: Concatenate_def spatial_def channels_def add.assoc)
  show ?thesis
    unfolding eq prog
    by (rule succeeds_weaken, rule new_layer_succeeds [OF assms(1)])
      (use mem in \<open>simp_all add: summary_defs convolutions_def\<close>)
qed

lemma Concatenate2_succeeds:
  assumes "valid_in g xs"
    and "\<lparr>tid = i, tshape = (h, w, c)\<rparr> \<in> set xs \<and>
      \<lparr>tid = j, tshape = (h', w', c')\<rparr> \<in> set xs \<and> h' = h \<and> w' = w"
  shows "succeeds (Concatenate [\<lparr>tid = i, tshape = (h, w, c)\<rparr>,
      \<lparr>tid = j, tshape = (h', w', c')\<rparr>]) g
    (\<lambda>t ls. t = \<lparr>tid = length g, tshape = (h, w, c + c')\<rparr> \<and>
      valid_in (g @ ls) (t # xs) \<and>
      summary ls 1 [0, 0, 0, 1, 0, 0, 0, 0] \<and> convolutions ls = [])"
proof -
  from assms(2) have eq: "h' = h" "w' = w"
    and mem: "\<lparr>tid = i, tshape = (h, w, c)\<rparr> \<in> set xs"
      "\<lparr>tid = j, tshape = (h, w, c')\<rparr> \<in> set xs"
    by auto
  have prog: "Concatenate [\<lparr>tid = i, tshape = (h, w, c)\<rparr>, \<lparr>tid = j, tshape = (h, w, c')\<rparr>] =
    new_layer ConcatenateLayer
      [\<lparr>tid = i, tshape = (h, w, c)\<rparr>, \<lparr>tid = j, tshape = (h, w, c')\<rparr>] (h, w, c + c')"
    by (simp add: Concatenate_def spatial_def channels_def)
  show ?thesis
    unfolding eq prog
    by (rule succeeds_weaken, rule new_layer_succeeds [OF assms(1)])
      (use mem in \<open>simp_all add: summary_defs convolutions_def\<close>)
qed

lemma MaxPooling2D_succeeds:
  assumes "valid_in g xs"
    and "\<lparr>tid = i, tshape = (h, w, c)\<rparr> \<in> set xs \<and> even h \<and> even w"
  shows "succeeds (MaxPooling2D (2, 2) \<lparr>tid = i, tshape = (h, w, c)\<rparr>) g
    (\<lambda>t ls. t = \<lparr>tid = length g, tshape = (h div 2, w div 2, c)\<rparr> \<and>
      valid_in (g @ ls) (t # xs) \<and>
      summary ls 1 [0, 0, 1, 0, 0, 0, 0, 0] \<and> convolutions ls = [])"
  using assms(2)
  by (simp add: MaxPooling2D_def conv_output_length_def del: valid_in_Cons)
    (rule succeeds_weaken, rule new_layer_succeeds [OF assms(1)],
      simp_all add: summary_defs convolutions_def)

lemma Conv2DTranspose_succeeds:
  assumes "valid_in g xs"
    and "\<lparr>tid = i, tshape = (h, w, c)\<rparr> \<in> set xs \<and> 0 < filters"
  shows "succeeds
    (Conv2DTranspose filters (2, 2) (2, 2) (Some ''same'') \<lparr>tid = i, tshape = (h, w, c)\<rparr>) g
    (\<lambda>t ls. t = \<lparr>tid = length g, tshape = (h * 2, w * 2, nat filters)\<rparr> \<and>
      valid_in (g @ ls) (t # xs) \<and>
      summary ls 1 [0, 0, 0, 0, 1, 0, 0, 0] \<and> convolutions ls = [])"
  using assms(2)
  by (simp add: Conv2DTranspose_def deconv_output_length_def del: valid_in_Cons)
    (rule succeeds_weaken, rule new_layer_succeeds [OF assms(1)],
      simp_all add: summary_defs convolutions_def)

lemma Conv2D_succeeds:
  assumes "valid_in g xs"
    and "\<lparr>tid = i, tshape = (h, w, c)\<rparr> \<in> set xs \<and> 0 < filters \<and> 0 < kh \<and> 0 < kw"
  shows "succeeds
    (Conv2D filters (kh, kw) (1, 1) (Some ''same'') b \<lparr>tid = i, tshape = (h, w, c)\<rparr>) g
    (\<lambda>t ls. t = \<lparr>tid = length g, tshape = (h, w, nat filters)\<rparr> \<and>
      valid_in (g @ ls) (t # xs) \<and>
      summary ls 1 [1, 0, 0, 0, 0, 0, 0, 0] \<and> convolutions ls = [(filters, kh, kw)])"
  using assms(2)
  by (simp add: Conv2D_def conv_output_length_def del: valid_in_Cons)
    (rule succeeds_weaken, rule new_layer_succeeds [OF assms(1)],
      simp_all add: summary_defs convolutions_def)

lemma known_relu: "known_activation ''relu''"
  by (simp add: known_activation_def)

lemma known_sigmoid: "known_activation ''sigmoid''"
  by (simp add: known_activation_def)

lemmas summary_simps = summary_def census_append convolutions_append

lemma conv2d_succeeds:
  assumes "valid_in g xs"
    and "\<lparr>tid = i, tshape = (h, w, c)\<rparr> \<in> set xs \<and> 0 < filters \<and> 0 < kh \<and> 0 < kw \<and>
      known_activation a"
  shows "succeeds
    (conv2d \<lparr>tid = i, tshape = (h, w, c)\<rparr> filters (kh, kw) (Some ''same'') (1, 1) (Some a)) g
    (\<lambda>t ls. t = \<lparr>tid = length g + 2, tshape = (h, w, nat filters)\<rparr> \<and>
      valid_in (g @ ls) (t # xs) \<and>
      summary ls 3 [1, 1, 0, 0, 0, 0, 1, 0] \<and> convolutions ls = [(filters, kh, kw)])"
  unfolding conv2d_def option.case and_then_ret_right using assms
  apply -
  apply (rule succeeds_and_then, rule Conv2D_succeeds, assumption, simp, clarify)
  apply (rule succeeds_and_then, rule BatchNormalization_succeeds, assumption, simp, clarify)
  apply (rule succeeds_weaken, rule Activation_succeeds, assumption, simp)
  apply (simp add: summary_simps)
  done

lemma conv2d_linear_succeeds:
  assumes "valid_in g xs"
    and "\<lparr>tid = i, tshape = (h, w, c)\<rparr> \<in> set xs \<and> 0 < filters \<and> 0 < kh \<and> 0 < kw"
  shows "succeeds
    (conv2d \<lparr>tid = i, tshape = (h, w, c)\<rparr> filters (kh, kw) (Some ''same'') (1, 1) None) g
    (\<lambda>t ls. t = \<lparr>tid = length g + 1, tshape = (h, w, nat filters)\<rparr> \<and>
      valid_in (g @ ls) (t # xs) \<and>
      summary ls 2 [1, 1, 0, 0, 0, 0, 0, 0] \<and> convolutions ls = [(filters, kh, kw)])"
  unfolding conv2d_def option.case and_then_ret_right using assms
  apply -
  apply (rule succeeds_and_then, rule Conv2D_succeeds, assumption, simp, clarify)
  apply (rule succeeds_weaken, rule BatchNormalization_succeeds, assumption, simp)
  apply (simp add: summary_simps)
  done

lemma MultiResBlock_succeeds:
  assumes "valid_in g xs"
    and "\<lparr>tid = i, tshape = (h, w, c)\<rparr> \<in> set xs \<and>
      mul_int_float u_val alpha = Inr weight \<and>
      py_int (fmul weight lit_0_167) = Inr fa \<and>
      py_int (fmul weight lit_0_333) = Inr fb \<and>
      py_int (fmul weight lit_0_5) = Inr fc \<and> 0 < fa \<and> 0 < fb \<and> 0 < fc"
  shows "succeeds (MultiResBlock u_val \<lparr>tid = i, tshape = (h, w, c)\<rparr> alpha) g
    (\<lambda>t ls. t = \<lparr>tid = length g + 15, tshape = (h, w, nat (fa + fb + fc))\<rparr> \<and>
      valid_in (g @ ls) (t # xs) \<and>
      summary ls 16 [4, 6, 0, 1, 0, 0, 4, 1] \<and>
      convolutions ls = [(fa + fb + fc, 1, 1), (fa, 3, 3), (fb, 3, 3), (fc, 3, 3)])"
proof -
  let ?x = "\<lparr>tid = i, tshape = (h, w, c)\<rparr>"
  have prog: "MultiResBlock u_val ?x alpha =
     and_then (conv2d ?x (fa + fb + fc) (1, 1) (Some ''same'') (1, 1) None)
       (\<lambda>dimension_conservation.
     and_then (conv2d ?x fa (3, 3) (Some ''same'') (1, 1) (Some ''relu'')) (\<lambda>conv3x3.
     and_then (conv2d conv3x3 fb (3, 3) (Some ''same'') (1, 1) (Some ''relu'')) (\<lambda>conv5x5.
     and_then (conv2d conv5x5 fc (3, 3) (Some ''same'') (1, 1) (Some ''relu'')) (\<lambda>conv7x7.
     and_then (Concatenate [conv3x3, conv5x5, conv7x7]) (\<lambda>out.
     and_then (BatchNormalization True out) (\<lambda>out.
     and_then (add [dimension_conservation, out]) (\<lambda>out.
     and_then (Activation ''relu'' out) (\<lambda>out.
     BatchNormalization True out))))))))"
    using assms(2) by (simp add: MultiResBlock_def py_def)
  have side: "\<lparr>tid = i, tshape = (h, w, c)\<rparr> \<in> set xs" "0 < fa" "0 < fb" "0 < fc"
    using assms(2) by simp_all
  show ?thesis
    unfolding prog using assms(1) side known_relu
    apply -
    apply (rule succeeds_and_then, rule conv2d_linear_succeeds, assumption, simp, clarify)
    apply (rule succeeds_and_then, rule conv2d_succeeds, assumption, simp, clarify)
    apply (rule succeeds_and_then, rule conv2d_succeeds, assumption, simp, clarify)
    apply (rule succeeds_and_then, rule conv2d_succeeds, assumption, simp, clarify)
    apply (rule succeeds_and_then, rule Concatenate3_succeeds, assumption, simp, clarify)
    apply (rule succeeds_and_then, rule BatchNormalization_succeeds, assumption, simp, clarify)
    apply (rule succeeds_and_then, rule add_succeeds, assumption, simp add: nat_add_distrib,
        clarify)
    apply (rule succeeds_and_then, rule Activation_succeeds, assumption, simp, clarify)
    apply (rule succeeds_weaken, rule BatchNormalization_succeeds, assumption, simp)
    apply (simp add: summary_simps)
    done
qed

lemma residual_unit_succeeds:
  assumes "valid_in g xs"
    and "\<lparr>tid = i, tshape = (h, w, c)\<rparr> \<in> set xs \<and> 0 < filters"
  shows "succeeds (residual_unit filters \<lparr>tid = i, tshape = (h, w, c)\<rparr>) g
    (\<lambda>t ls. t = \<lparr>tid = length g + 7, tshape = (h, w, nat filters)\<rparr> \<and>
      valid_in (g @ ls) (t # xs) \<and> summary ls 8 [2, 3, 0, 0, 0, 0, 2, 1])"
  unfolding residual_unit_def using assms known_relu
  apply -
  apply (rule succeeds_and_then, rule conv2d_linear_succeeds, assumption, simp, clarify)
  apply (rule succeeds_and_then, rule conv2d_succeeds, assumption, simp, clarify)
  apply (rule succeeds_and_then, rule add_succeeds, assumption, simp, clarify)
  apply (rule succeeds_and_then, rule Activation_succeeds, assumption, simp, clarify)
  apply (rule succeeds_weaken, rule BatchNormalization_succeeds, assumption, simp)
  apply (simp add: summary_simps)
  done

lemma residual_units_Suc_succeeds:
  assumes "valid_in g xs"
    and "\<lparr>tid = i, tshape = (h, w, c)\<rparr> \<in> set xs \<and> 0 < filters"
  shows "succeeds (residual_units (Suc n) filters \<lparr>tid = i, tshape = (h, w, c)\<rparr>) g
    (\<lambda>t ls. t = \<lparr>tid = length g + (8 * n + 7), tshape = (h, w, nat filters)\<rparr> \<and>
      valid_in (g @ ls) (t # xs) \<and>
      summary ls (8 * Suc n) [2 * Suc n, 3 * Suc n, 0, 0, 0, 0, 2 * Suc n, Suc n])"
  using assms
proof (induction n arbitrary: g i c xs)
  case 0
  show ?case
    by (rule succeeds_weaken, simp add: residual_units_0, rule residual_unit_succeeds [OF 0])
      simp
next
  case (Suc n)
  have unfold: "residual_units (Suc (Suc n)) filters \<lparr>tid = i, tshape = (h, w, c)\<rparr> =
      and_then (residual_unit filters \<lparr>tid = i, tshape = (h, w, c)\<rparr>)
        (residual_units (Suc n) filters)"
    by simp
  show ?case
    unfolding unfold using Suc.prems
    apply -
    apply (rule succeeds_and_then, rule residual_unit_succeeds, assumption, simp, clarify)
    apply (rule succeeds_weaken, rule Suc.IH, assumption, simp)
    apply (simp add: summary_simps)
    done
qed

lemma ResPath_succeeds:
  assumes "valid_in g xs"
    and "\<lparr>tid = i, tshape = (h, w, c)\<rparr> \<in> set xs \<and> 0 < filters \<and>
      path_units path_length = Suc n"
  shows "succeeds (ResPath filters \<lparr>tid = i, tshape = (h, w, c)\<rparr> path_length) g
    (\<lambda>t ls. t = \<lparr>tid = length g + (8 * n + 7), tshape = (h, w, nat filters)\<rparr> \<and>
      valid_in (g @ ls) (t # xs) \<and>
      summary ls (8 * Suc n) [2 * Suc n, 3 * Suc n, 0, 0, 0, 0, 2 * Suc n, Suc n])"
proof -
  have "ResPath filters \<lparr>tid = i, tshape = (h, w, c)\<rparr> path_length =
      residual_units (Suc n) filters \<lparr>tid = i, tshape = (h, w, c)\<rparr>"
    using assms(2) by (simp add: ResPath_units)
  then show ?thesis
    using assms by (simp only:) (rule residual_units_Suc_succeeds, simp_all)
qed

lemma Model_succeeds:
  assumes "valid_in g xs"
    and "is_input_tensor g x \<and> y \<in> set xs"
  shows "succeeds (Model [x] [y]) g
    (\<lambda>m ls. m = \<lparr>inputs = [x], outputs = [y]\<rparr> \<and> ls = [])"
proof -
  have "is_tensor_of g y"
    using assms by (simp add: valid_in_member)
  then show ?thesis
    using assms(2) by (simp add: succeeds_def Model_def)
qed

lemma is_input_tensor_append: "is_input_tensor g x \<Longrightarrow> is_input_tensor (g @ ls) x"
  by (simp add: is_input_tensor_def is_tensor_of_def nth_append)

text \<open>The blocks of the network, with the default \<^verbatim>\<open>alpha\<close>.\<close>

lemma default_blocks:
  "default_block 32 51" "default_block 64 105" "default_block 128 212"
  "default_block 256 426" "default_block 512 853"
  by (simp_all add: default_block_def
      weight_32 filters_32_1 filters_32_2 filters_32_3
      weight_64 filters_64_1 filters_64_2 filters_64_3
      weight_128 filters_128_1 filters_128_2 filters_128_3
      weight_256 filters_256_1 filters_256_2 filters_256_3
      weight_512 filters_512_1 filters_512_2 filters_512_3)

lemma default_block_succeeds:
  assumes "valid_in g xs"
    and "\<lparr>tid = i, tshape = (h, w, c)\<rparr> \<in> set xs \<and> default_block u_val n"
  shows "succeeds (MultiResBlock u_val \<lparr>tid = i, tshape = (h, w, c)\<rparr> (Some lit_1_67)) g
    (\<lambda>t ls. t = \<lparr>tid = length g + 15, tshape = (h, w, n)\<rparr> \<and>
      valid_in (g @ ls) (t # xs) \<and> summary ls 16 [4, 6, 0, 1, 0, 0, 4, 1])"
proof -
  from assms(2) obtain weight fa fb fc
    where "mul_int_float u_val (Some lit_1_67) = Inr weight"
      and "py_int (fmul weight lit_0_167) = Inr fa"
      and "py_int (fmul weight lit_0_333) = Inr fb"
      and "py_int (fmul weight lit_0_5) = Inr fc"
      and "0 < fa" "0 < fb" "0 < fc" and n: "n = nat (fa + fb + fc)"
    by (auto simp: default_block_def split: sum.splits)
  then show ?thesis
    unfolding n
    by - (rule succeeds_weaken,
        rule MultiResBlock_succeeds [OF assms(1), where weight = weight and fa = fa
          and fb = fb and fc = fc],
        use assms(2) in simp_all)
qed

lemma encoder_level_succeeds:
  assumes "valid_in g xs"
    and "\<lparr>tid = i, tshape = (h, w, c)\<rparr> \<in> set xs \<and> even h \<and> even w \<and>
      default_block u_val n \<and> 0 < u_val \<and> path_units path_length = Suc k"
  shows "succeeds (encoder_level u_val path_length \<lparr>tid = i, tshape = (h, w, c)\<rparr>) g
    (\<lambda>r ls. r = (\<lparr>tid = length g + 16, tshape = (h div 2, w div 2, n)\<rparr>,
                 \<lparr>tid = length g + (8 * k + 24), tshape = (h, w, nat u_val)\<rparr>) \<and>
      valid_in (g @ ls) (fst r # snd r # xs) \<and>
      summary ls (8 * k + 25) [2 * k + 6, 3 * k + 9, 1, 1, 0, 0, 2 * k + 6, k + 2])"
  unfolding encoder_level_def using assms
  apply -
  apply (rule succeeds_and_then, rule default_block_succeeds [where n = n], assumption, simp,
      clarify)
  apply (rule succeeds_and_then, rule MaxPooling2D_succeeds, assumption, simp, clarify)
  apply (rule succeeds_and_then, rule ResPath_succeeds [where n = k], assumption, simp,
      clarify)
  apply (rule succeeds_ret)
  apply (simp add: summary_simps)
  done

lemma decoder_level_succeeds:
  assumes "valid_in g xs"
    and "\<lparr>tid = i, tshape = (h, w, c)\<rparr> \<in> set xs \<and>
      \<lparr>tid = j, tshape = (h', w', c')\<rparr> \<in> set xs \<and> h' = h * 2 \<and> w' = w * 2 \<and>
      default_block u_val n \<and> 0 < u_val"
  shows "succeeds (decoder_level u_val \<lparr>tid = i, tshape = (h, w, c)\<rparr>
      \<lparr>tid = j, tshape = (h', w', c')\<rparr>) g
    (\<lambda>t ls. t = \<lparr>tid = length g + 17, tshape = (h * 2, w * 2, n)\<rparr> \<and>
      valid_in (g @ ls) (t # xs) \<and> summary ls 18 [4, 6, 0, 2, 1, 0, 4, 1])"
  unfolding decoder_level_def using assms
  apply -
  apply (rule succeeds_and_then, rule Conv2DTranspose_succeeds, assumption, simp, clarify)
  apply (rule succeeds_and_then, rule Concatenate2_succeeds, assumption, simp, clarify)
  apply (rule succeeds_weaken, rule default_block_succeeds [where n = n], assumption, simp)
  apply (simp add: summary_simps)
  done

section \<open>The network on input sizes divisible by 16\<close>

lemma MultiResUnet_levels:
  "MultiResUnet input_size =
     and_then (Input input_size) (\<lambda>inputs.
     and_then (encoder_level 32 (Some 4) inputs) (\<lambda>(pool_1, mresblock_1).
     and_then (encoder_level 64 (Some 3) pool_1) (\<lambda>(pool_2, mresblock_2).
     and_then (encoder_level 128 (Some 2) pool_2) (\<lambda>(pool_3, mresblock_3).
     and_then (encoder_level 256 None pool_3) (\<lambda>(pool_4, mresblock_4).
     and_then (MultiResBlock 512 pool_4 (Some lit_1_67)) (\<lambda>mresblock5.
     and_then (decoder_level 256 mresblock5 mresblock_4) (\<lambda>mresblock_6.
     and_then (decoder_level 128 mresblock_6 mresblock_3) (\<lambda>mresblock7.
     and_then (decoder_level 64 mresblock7 mresblock_2) (\<lambda>mresblock8.
     and_then (decoder_level 32 mresblock8 mresblock_1) (\<lambda>mresblock9.
     and_then (conv2d mresblock9 1 (1, 1) (Some ''same'') (1, 1) (Some ''sigmoid''))
       (\<lambda>conv_10.
     Model [inputs] [conv_10])))))))))))"
  by (simp add: MultiResUnet_def encoder_level_def decoder_level_def and_then_assoc)

lemma MultiResUnet_succeeds:
  "succeeds (MultiResUnet (16 * a, 16 * b, c)) g
    (\<lambda>m ls. inputs m = [\<lparr>tid = length g, tshape = (16 * a, 16 * b, c)\<rparr>] \<and>
      outputs m = [\<lparr>tid = length g + 239, tshape = (16 * a, 16 * b, 1)\<rparr>] \<and>
      summary ls 240 [57, 85, 4, 13, 4, 1, 57, 19])"
  unfolding MultiResUnet_levels using known_sigmoid default_blocks
  apply -
  apply (rule succeeds_and_then, rule Input_succeeds, rule valid_in_Nil, clarify)
  apply (rule succeeds_and_then, rule encoder_level_succeeds [where n = 51 and k = 3],
      assumption, simp add: path_units_def, clarify, simp only: prod.case fst_conv snd_conv)
  apply (rule succeeds_and_then, rule encoder_level_succeeds [where n = 105 and k = 2],
      assumption, simp add: path_units_def, clarify, simp only: prod.case fst_conv snd_conv)
  apply (rule succeeds_and_then, rule encoder_level_succeeds [where n = 212 and k = 1],
      assumption, simp add: path_units_def, clarify, simp only: prod.case fst_conv snd_conv)
  apply (rule succeeds_and_then, rule encoder_level_succeeds [where n = 426 and k = 0],
      assumption, simp add: path_units_def, clarify, simp only: prod.case fst_conv snd_conv)
  apply (rule succeeds_and_then, rule default_block_succeeds [where n = 853],
      assumption, simp, clarify)
  apply (rule succeeds_and_then, rule decoder_level_succeeds [where n = 426],
      assumption, simp, clarify)
  apply (rule succeeds_and_then, rule decoder_level_succeeds [where n = 212],
      assumption, simp, clarify)
  apply (rule succeeds_and_then, rule decoder_level_succeeds [where n = 105],
      assumption, simp, clarify)
  apply (rule succeeds_and_then, rule decoder_level_succeeds [where n = 51],
      assumption, simp, clarify)
  apply (rule succeeds_and_then, rule conv2d_succeeds, assumption, simp, clarify)
  apply (rule succeeds_weaken, rule Model_succeeds, assumption,
      simp add: is_input_tensor_append del: append_assoc)
  apply (simp add: summary_simps)
  done

lemma MultiResUnet_16:
  assumes "16 dvd h" and "16 dvd w"
  shows "\<exists>m ls. MultiResUnet (h, w, c) g = Inr (m, g @ ls) \<and>
    inputs m = [\<lparr>tid = length g, tshape = (h, w, c)\<rparr>] \<and>
    outputs m = [\<lparr>tid = length g + 239, tshape = (h, w, 1)\<rparr>] \<and>
    summary ls 240 [57, 85, 4, 13, 4, 1, 57, 19]"
proof -
  from assms obtain a b where "h = 16 * a" and "w = 16 * b"
    by (auto simp: dvd_def)
  then show ?thesis
    using MultiResUnet_succeeds [of a b c g] by (simp add: succeeds_def)
qed

lemma census_counts:
  assumes "census ls = [a, b, c, d, e, f, g, h]"
  shows "count_class ''Conv2D'' ls = a" "count_class ''BatchNormalization'' ls = b"
    "count_class ''MaxPooling2D'' ls = c" "count_class ''Concatenate'' ls = d"
    "count_class ''Conv2DTranspose'' ls = e" "count_class ''InputLayer'' ls = f"
    "count_class ''Activation'' ls = g" "count_class ''Add'' ls = h"
  using assms by (simp_all add: census_def listed_classes_def unlisted_classes_def)

text \<open>
  C1: for every input size \<open>(h, w, c)\<close> with \<open>h\<close> and \<open>w\<close> divisible by 16, in every
  state of the framework, \<^verbatim>\<open>MultiResUnet\<close> returns a model whose output has the shape
  \<open>(h, w, 1)\<close>, and the graph it constructs has 240 layers, whatever the input size.
\<close>

theorem MultiResUnet_output_shape:
  assumes "16 dvd h" and "16 dvd w"
  shows "\<exists>m ls. MultiResUnet (h, w, c) g = Inr (m, g @ ls) \<and>
    map tshape (outputs m) = [(h, w, 1)] \<and> length ls = 240"
  using MultiResUnet_16 [OF assms, of c g] by (auto simp: summary_def)

theorem MultiResUnet_output_shape_witness:
  "(16::nat) dvd 32 \<and> (16::nat) dvd 48 \<and>
   (\<exists>m ls. MultiResUnet (32, 48, 3) [] = Inr (m, [] @ ls) \<and>
      map tshape (outputs m) = [(32, 48, 1)] \<and> length ls = 240)"
  using MultiResUnet_output_shape [of 32 48 3 "[]"] by simp

text \<open>
  C7: for every input size with \<open>h\<close> and \<open>w\<close> divisible by 16 the construction raises
  nothing, and every layer it adds is compatible with the tensors it is applied to: each
  of the 19 element-wise sums receives tensors of one shape, each of the 13
  concatenations tensors of one height and width, each of the 4 max-poolings halves
  height and width exactly and each of the 4 transposed convolutions doubles them.
\<close>

theorem MultiResUnet_shape_compatible:
  assumes "16 dvd h" and "16 dvd w"
  shows "\<exists>m ls. MultiResUnet (h, w, c) g = Inr (m, g @ ls) \<and> list_all compatible ls \<and>
    count_class ''MaxPooling2D'' ls = 4 \<and> count_class ''Conv2DTranspose'' ls = 4 \<and>
    count_class ''Concatenate'' ls = 13 \<and> count_class ''Add'' ls = 19"
proof -
  from MultiResUnet_16 [OF assms, of c g] obtain m ls
    where run: "MultiResUnet (h, w, c) g = Inr (m, g @ ls)"
      and s: "summary ls 240 [57, 85, 4, 13, 4, 1, 57, 19]"
    by blast
  from s have "census ls = [57, 85, 4, 13, 4, 1, 57, 19]" and "list_all compatible ls"
    by (simp_all add: summary_def)
  with run show ?thesis
    by (auto dest: census_counts)
qed

theorem MultiResUnet_shape_compatible_witness:
  "(16::nat) dvd 16 \<and> (16::nat) dvd 64 \<and>
   (\<exists>m ls. MultiResUnet (16, 64, 1) [] = Inr (m, [] @ ls) \<and> list_all compatible ls \<and>
      count_class ''MaxPooling2D'' ls = 4 \<and> count_class ''Conv2DTranspose'' ls = 4 \<and>
      count_class ''Concatenate'' ls = 13 \<and> count_class ''Add'' ls = 19)"
  using MultiResUnet_shape_compatible [of 16 64 1 "[]"] by simp

end
